theory Spec2Isabelle
  imports Complex_Main "HOL-Library.Sublist"
begin

section \<open>Python values and exceptions used by app.py\<close>

text \<open>
  A decoded JSON document, as \<open>resp.json()\<close> hands it to the program: \<open>None\<close>, a bool,
  a number, a \<open>str\<close>, a \<open>list\<close> or a \<open>dict\<close>. A dict is the list of its items in
  insertion order, keys distinct. Numbers are integers here: a float behaves as an int
  in every operation app.py applies (no \<open>.get\<close>, not iterable, not subscriptable).
  A \<open>str\<close> is the list of its code points, each below 256.
\<close>

datatype json =
    JNull
  | JBool bool
  | JNum int
  | JStr string
  | JArr "json list"
  | JObj "(string \<times> json) list"

text \<open>
  An exception is its class, up to the base classes the handlers of app.py test for
  (\<open>RequestException\<close> stands for itself and its subclasses such as \<open>HTTPError\<close>),
  and the text \<open>str(e)\<close>. Every class here derives from \<open>Exception\<close>.
\<close>

datatype exc_class =
  RequestException | AttributeError | TypeError | KeyError | ValueError | OtherError

datatype exc = Exc exc_class string

fun exc_cls :: "exc \<Rightarrow> exc_class" where
  "exc_cls (Exc c m) = c"

fun exc_str :: "exc \<Rightarrow> string" where
  "exc_str (Exc c m) = m"

text \<open>\<open>not v\<close> is \<open>\<not> truthy v\<close>.\<close>

fun truthy :: "json \<Rightarrow> bool" where
  "truthy JNull = False"
| "truthy (JBool b) = b"
| "truthy (JNum n) = (n \<noteq> 0)"
| "truthy (JStr s) = (s \<noteq> [])"
| "truthy (JArr xs) = (xs \<noteq> [])"
| "truthy (JObj kvs) = (kvs \<noteq> [])"

text \<open>
  \<open>k in v\<close> for a string \<open>k\<close>: key membership in a dict, element membership in a list,
  substring test in a str, \<open>TypeError\<close> for every other value.
\<close>

fun py_contains :: "string \<Rightarrow> json \<Rightarrow> exc + bool" where
  "py_contains k (JObj kvs) = Inr (map_of kvs k \<noteq> None)"
| "py_contains k (JArr xs) = Inr (JStr k \<in> set xs)"
| "py_contains k (JStr s) = Inr (sublist k s)"
| "py_contains k v = Inl (Exc TypeError ''argument is not iterable'')"

text \<open>
  \<open>v[k]\<close> for a string \<open>k\<close>: the value in a dict or \<open>KeyError\<close>; \<open>TypeError\<close> for a
  list or a str (their indices are integers) and for every value that is not subscriptable.
  The text of a \<open>KeyError\<close> is the key in single quotes, as \<open>str(e)\<close> gives it for the
  keys app.py uses (\<open>errors\<close>, \<open>text\<close>, \<open>id\<close>).
\<close>

fun py_getitem :: "json \<Rightarrow> string \<Rightarrow> exc + json" where
  "py_getitem (JObj kvs) k =
     (case map_of kvs k of None \<Rightarrow> Inl (Exc KeyError ([CHR 0x27] @ k @ [CHR 0x27])) | Some v \<Rightarrow> Inr v)"
| "py_getitem v k = Inl (Exc TypeError ''indices must be integers or object is not subscriptable'')"

text \<open>\<open>v.get(k, d)\<close>: only a dict has the method; every other value raises \<open>AttributeError\<close>.\<close>

fun py_get :: "json \<Rightarrow> string \<Rightarrow> json \<Rightarrow> exc + json" where
  "py_get (JObj kvs) k d = Inr (case map_of kvs k of None \<Rightarrow> d | Some v \<Rightarrow> v)"
| "py_get v k d = Inl (Exc AttributeError ''object has no attribute get'')"

text \<open>
  The items a \<open>for\<close> loop or a comprehension visits: the elements of a list, the keys of
  a dict, the one-character strings of a str; \<open>TypeError\<close> otherwise.
\<close>

fun py_iter :: "json \<Rightarrow> exc + json list" where
  "py_iter (JArr xs) = Inr xs"
| "py_iter (JObj kvs) = Inr (map (\<lambda>kv. JStr (fst kv)) kvs)"
| "py_iter (JStr s) = Inr (map (\<lambda>c. JStr [c]) s)"
| "py_iter v = Inl (Exc TypeError ''object is not iterable'')"

text \<open>\<open>sep.join(xs)\<close>: every item must be a str.\<close>

fun py_join :: "string \<Rightarrow> json list \<Rightarrow> exc + string" where
  "py_join sep [] = Inr []"
| "py_join sep [JStr s] = Inr s"
| "py_join sep (JStr s # x # xs) =
     (case py_join sep (x # xs) of Inl e \<Rightarrow> Inl e | Inr r \<Rightarrow> Inr (s @ sep @ r))"
| "py_join sep (v # xs) = Inl (Exc TypeError ''sequence item: expected str instance'')"

text \<open>
  \<open>s.strip()\<close>: whitespace removed at both ends. Below 256 the whitespace code points
  are 9 to 13, 28 to 32, 0x85 and 0xA0.
\<close>

definition py_isspace :: "char \<Rightarrow> bool" where
  "py_isspace c =
     (let n = of_char c :: nat
      in (9 \<le> n \<and> n \<le> 13) \<or> (28 \<le> n \<and> n \<le> 32) \<or> n = 133 \<or> n = 160)"

definition strip :: "string \<Rightarrow> string" where
  "strip s = rev (dropWhile py_isspace (rev (dropWhile py_isspace s)))"

section \<open>Configuration, the HTTP client and what the user sees\<close>

text \<open>The three module constants read from the environment, \<open>""\<close> when unset.\<close>

record config =
  FIRELIES_API_KEY :: string
  FIRELIES_GRAPHQL_ENDPOINT :: string
  GOOGLE_API_KEY :: string

definition MODEL_ID :: string where
  "MODEL_ID = ''gemini-2.0-flash''"

text \<open>The float literal \<open>0.7\<close>, kept as the number it denotes.\<close>

definition TEMPERATURE :: rat where
  "TEMPERATURE = 7 / 10"

text \<open>The arguments of \<open>requests.post(url, json=..., headers=...)\<close>.\<close>

record request =
  req_url :: string
  req_json :: json
  req_headers :: "(string \<times> string) list"

text \<open>
  A response object: its status code, the text of the \<open>HTTPError\<close> that
  \<open>raise_for_status\<close> raises for it, and what \<open>resp.json()\<close> does (the decoded body,
  or the exception the decoder raises).
\<close>

record response =
  status_code :: int
  http_error_str :: string
  json_result :: "exc + json"

text \<open>\<open>resp.raise_for_status()\<close> of requests: an \<open>HTTPError\<close> for 4xx and 5xx.\<close>

definition raise_for_status :: "response \<Rightarrow> exc option" where
  "raise_for_status resp =
     (if 400 \<le> status_code resp \<and> status_code resp < 600
      then Some (Exc RequestException (http_error_str resp)) else None)"

text \<open>
  The HTTP client is a parameter: \<open>post req w\<close> is the outcome of one call in the world
  \<open>w\<close> (an exception or a response) and the world after it.
\<close>

type_synonym 'w http = "request \<Rightarrow> 'w \<Rightarrow> (exc + response) \<times> 'w"

text \<open>
  A text shown to the user: a literal, or a literal followed by Python's rendering of a
  value (\<open>"...{}".format(v)\<close>, \<open>f"...{v}"\<close>); the rendering itself is not modelled.
\<close>

datatype message = Msg string | Fmt string json

text \<open>
  The trace of a run: the streamlit calls, and the calls made to the HTTP client and to
  the generative-AI client, in the order they happen.
\<close>

datatype event =
    StError message
  | StInfo string
  | StWarning string
  | StSuccess string
  | StMarkdown string
  | StWrite message
  | StTitle string
  | StSubheader string
  | StSetPageConfig string string
  | StColumns "nat list"
  | RequestsPost request
  | GenaiConfigure string
  | GenaiGenerativeModel string
  | GenaiGenerateContent string string rat

section \<open>get\_fireflies\_transcripts\<close>

definition transcripts_query :: string where
  "transcripts_query =
     [CHR 0x0A] @
     ''    query {'' @ [CHR 0x0A] @
     ''      transcripts {'' @ [CHR 0x0A] @
     ''        id'' @ [CHR 0x0A] @
     ''        title'' @ [CHR 0x0A] @
     ''      }'' @ [CHR 0x0A] @
     ''    }'' @ [CHR 0x0A] @
     ''    ''"

definition fireflies_headers :: "config \<Rightarrow> (string \<times> string) list" where
  "fireflies_headers cfg =
     [(''Content-Type'', ''application/json''),
      (''Authorization'', ''Bearer '' @ FIRELIES_API_KEY cfg)]"

definition transcripts_request :: "config \<Rightarrow> request" where
  "transcripts_request cfg =
     \<lparr>req_url = FIRELIES_GRAPHQL_ENDPOINT cfg,
      req_json = JObj [(''query'', JStr transcripts_query)],
      req_headers = fireflies_headers cfg\<rparr>"

definition missing_config_msg :: string where
  "missing_config_msg =
     ''Faltam configura'' @ [CHR 0xE7] @ [CHR 0xF5] @ ''es de acesso '' @ [CHR 0xE0] @
     '' API Fireflies.''"

definition graphql_errors_prefix :: string where
  "graphql_errors_prefix = ''Erro(s) retornado(s) pelo GraphQL: ''"

definition request_failed_prefix :: string where
  "request_failed_prefix =
     ''Falha na requisi'' @ [CHR 0xE7] @ [CHR 0xE3] @ ''o ao Fireflies: ''"

text \<open>
  Lines 57 to 66, the part of the \<open>try\<close> block after the POST: the value returned or the
  exception raised, with the notifications issued on the way.
\<close>

definition transcripts_of_response :: "response \<Rightarrow> (exc + json) \<times> event list" where
  "transcripts_of_response resp =
     (case raise_for_status resp of
        Some e \<Rightarrow> (Inl e, [])
      | None \<Rightarrow>
          (case json_result resp of
             Inl e \<Rightarrow> (Inl e, [])
           | Inr data \<Rightarrow>
               (case py_contains ''errors'' data of
                  Inl e \<Rightarrow> (Inl e, [])
                | Inr True \<Rightarrow>
                    (case py_getitem data ''errors'' of
                       Inl e \<Rightarrow> (Inl e, [])
                     | Inr errs \<Rightarrow> (Inr (JArr []), [StError (Fmt graphql_errors_prefix errs)]))
                | Inr False \<Rightarrow>
                    (case py_get data ''data'' (JObj []) of
                       Inl e \<Rightarrow> (Inl e, [])
                     | Inr d \<Rightarrow> (py_get d ''transcripts'' (JArr []), [])))))"

text \<open>
  The function returns the value it computed (\<open>Inr\<close>) or raises (\<open>Inl\<close>), with the trace
  of the call and the world after it. Only a \<open>RequestException\<close> is handled.
\<close>

definition get_fireflies_transcripts ::
    "config \<Rightarrow> 'w http \<Rightarrow> 'w \<Rightarrow> (exc + json) \<times> event list \<times> 'w" where
  "get_fireflies_transcripts cfg post w =
     (if FIRELIES_API_KEY cfg = [] \<or> FIRELIES_GRAPHQL_ENDPOINT cfg = [] then
        (Inr (JArr []), [StError (Msg missing_config_msg)], w)
      else
        let req = transcripts_request cfg;
            (r, w') = post req w;
            (res, evs) = (case r of Inl e \<Rightarrow> (Inl e, []) | Inr resp \<Rightarrow> transcripts_of_response resp)
        in case res of
             Inr v \<Rightarrow> (Inr v, RequestsPost req # evs, w')
           | Inl e \<Rightarrow>
               if exc_cls e = RequestException then
                 (Inr (JArr []),
                  RequestsPost req # evs @ [StError (Msg (request_failed_prefix @ exc_str e))], w')
               else (Inl e, RequestsPost req # evs, w'))"

section \<open>get\_transcript\_text\_by\_id\<close>

definition transcript_query :: string where
  "transcript_query =
     [CHR 0x0A] @
     ''    query GetTranscript($id: String!) {'' @ [CHR 0x0A] @
     ''      transcript(id: $id) {'' @ [CHR 0x0A] @
     ''        sentences {'' @ [CHR 0x0A] @
     ''          text'' @ [CHR 0x0A] @
     ''        }'' @ [CHR 0x0A] @
     ''      }'' @ [CHR 0x0A] @
     ''    }'' @ [CHR 0x0A] @
     ''    ''"

definition transcript_request :: "config \<Rightarrow> json \<Rightarrow> request" where
  "transcript_request cfg transcript_id =
     \<lparr>req_url = FIRELIES_GRAPHQL_ENDPOINT cfg,
      req_json = JObj [(''query'', JStr transcript_query),
                       (''variables'', JObj [(''id'', transcript_id)])],
      req_headers = fireflies_headers cfg\<rparr>"

text \<open>The comprehension \<open>[s["text"] for s in sentences]\<close>: the first failing item raises.\<close>

fun sentence_texts :: "json list \<Rightarrow> exc + json list" where
  "sentence_texts [] = Inr []"
| "sentence_texts (s # ss) =
     (case py_getitem s ''text'' of
        Inl e \<Rightarrow> Inl e
      | Inr t \<Rightarrow> (case sentence_texts ss of Inl e \<Rightarrow> Inl e | Inr ts \<Rightarrow> Inr (t # ts)))"

text \<open>Lines 106 to 110: from the decoded body to the joined text.\<close>

definition join_sentences :: "json \<Rightarrow> exc + string" where
  "join_sentences data =
     (case py_get data ''data'' (JObj []) of
        Inl e \<Rightarrow> Inl e
      | Inr d \<Rightarrow>
          (case py_get d ''transcript'' (JObj []) of
             Inl e \<Rightarrow> Inl e
           | Inr transcript \<Rightarrow>
               (case py_get transcript ''sentences'' (JArr []) of
                  Inl e \<Rightarrow> Inl e
                | Inr sentences \<Rightarrow>
                    (case py_iter sentences of
                       Inl e \<Rightarrow> Inl e
                     | Inr ss \<Rightarrow>
                         (case sentence_texts ss of
                            Inl e \<Rightarrow> Inl e
                          | Inr ts \<Rightarrow> py_join [CHR 0x0A] ts)))))"

text \<open>Lines 99 to 110, the part of the \<open>try\<close> block after the POST.\<close>

definition text_of_response :: "response \<Rightarrow> (exc + string) \<times> event list" where
  "text_of_response resp =
     (case raise_for_status resp of
        Some e \<Rightarrow> (Inl e, [])
      | None \<Rightarrow>
          (case json_result resp of
             Inl e \<Rightarrow> (Inl e, [])
           | Inr data \<Rightarrow>
               (case py_contains ''errors'' data of
                  Inl e \<Rightarrow> (Inl e, [])
                | Inr True \<Rightarrow>
                    (case py_getitem data ''errors'' of
                       Inl e \<Rightarrow> (Inl e, [])
                     | Inr errs \<Rightarrow> (Inr [], [StError (Fmt graphql_errors_prefix errs)]))
                | Inr False \<Rightarrow> (join_sentences data, []))))"

text \<open>The configuration is not checked here; the id is whatever value the caller holds.\<close>

definition get_transcript_text_by_id ::
    "config \<Rightarrow> 'w http \<Rightarrow> json \<Rightarrow> 'w \<Rightarrow> (exc + string) \<times> event list \<times> 'w" where
  "get_transcript_text_by_id cfg post transcript_id w =
     (let req = transcript_request cfg transcript_id;
          (r, w') = post req w;
          (res, evs) = (case r of Inl e \<Rightarrow> (Inl e, []) | Inr resp \<Rightarrow> text_of_response resp)
      in case res of
           Inr v \<Rightarrow> (Inr v, RequestsPost req # evs, w')
         | Inl e \<Rightarrow>
             if exc_cls e = RequestException then
               (Inr [],
                RequestsPost req # evs @ [StError (Msg (request_failed_prefix @ exc_str e))], w')
             else (Inl e, RequestsPost req # evs, w'))"

section \<open>generate\_sales\_insights\<close>

text \<open>
  Reading an attribute of an object of the client library: the attribute is missing, or
  reading it raises (a property), or it has a value. \<open>hasattr\<close> is false for a missing
  attribute and for a property that raises \<open>AttributeError\<close>; any other exception of the
  property passes through \<open>hasattr\<close>.
\<close>

datatype 'a attr = Absent | Raises exc | Present 'a

fun hasattr :: "'a attr \<Rightarrow> exc + bool" where
  "hasattr Absent = Inr False"
| "hasattr (Raises e) = (if exc_cls e = AttributeError then Inr False else Inl e)"
| "hasattr (Present v) = Inr True"

fun getattr :: "'a attr \<Rightarrow> exc + 'a" where
  "getattr Absent = Inl (Exc AttributeError ''object has no such attribute'')"
| "getattr (Raises e) = Inl e"
| "getattr (Present v) = Inr v"

text \<open>
  The response of the model, as far as app.py reads it. \<open>block_reason\<close> is \<open>None\<close> when
  the attribute is falsy and \<open>Some r\<close> when it is truthy and renders as \<open>r\<close>;
  \<open>prompt_feedback\<close> is \<open>None\<close> when falsy. \<open>content\<close> and \<open>parts\<close> are \<open>None\<close> when
  \<open>hasattr\<close> is false for them.
\<close>

record Part =
  part_text :: "string attr"

record Content =
  parts :: "Part list option"

record Candidate =
  content :: "Content option"

record PromptFeedback =
  block_reason :: "string option"

record GenerateContentResponse =
  prompt_feedback :: "PromptFeedback option"
  candidates :: "Candidate list"
  response_text :: "string attr"

text \<open>
  The generative-AI client is a parameter: \<open>genai.configure(api_key=k)\<close>, the constructor
  \<open>genai.GenerativeModel(model_id)\<close>, and \<open>model.generate_content(prompt,
  generation_config=GenerationConfig(temperature=t))\<close>, each of which may raise.
\<close>

record 'w genai =
  configure :: "string \<Rightarrow> 'w \<Rightarrow> exc option \<times> 'w"
  GenerativeModel :: "string \<Rightarrow> 'w \<Rightarrow> exc option \<times> 'w"
  generate_content :: "string \<Rightarrow> string \<Rightarrow> rat \<Rightarrow> 'w \<Rightarrow> (exc + GenerateContentResponse) \<times> 'w"

definition not_configured_msg :: string where
  "not_configured_msg = ''Chave de API do Google n'' @ [CHR 0xE3] @ ''o configurada.''"

definition blocked_prefix :: string where
  "blocked_prefix = ''**Bloqueado pelo modelo**. Raz'' @ [CHR 0xE3] @ ''o: ''"

definition no_candidate_msg :: string where
  "no_candidate_msg = ''Nenhum candidato de resposta retornado.''"

definition could_not_extract_msg :: string where
  "could_not_extract_msg =
     ''N'' @ [CHR 0xE3] @ ''o foi poss'' @ [CHR 0xED] @ ''vel extrair insights do modelo.''"

definition exception_prefix :: string where
  "exception_prefix =
     ''Ocorreu uma exce'' @ [CHR 0xE7] @ [CHR 0xE3] @ ''o ao gerar insights: ''"

definition prompt_head :: string where
  "prompt_head =
     [CHR 0x0A] @
     ''Voc'' @ [CHR 0xEA] @ '' '' @ [CHR 0xE9] @ '' um especialista em an'' @ [CHR 0xE1] @
     ''lise de vendas com vasta experi'' @ [CHR 0xEA] @ ''ncia.'' @ [CHR 0x0A] @
     ''Sua tarefa '' @ [CHR 0xE9] @ '' analisar a seguinte transcri'' @ [CHR 0xE7] @ [CHR 0xE3] @
     ''o de uma intera'' @ [CHR 0xE7] @ [CHR 0xE3] @ ''o de vendas:'' @ [CHR 0x0A] @
     [CHR 0x0A] @
     [CHR 0x22] @ [CHR 0x22] @ [CHR 0x22] @ [CHR 0x0A]"

definition prompt_tail :: string where
  "prompt_tail =
     [CHR 0x0A] @
     [CHR 0x22] @ [CHR 0x22] @ [CHR 0x22] @ [CHR 0x0A] @
     [CHR 0x0A] @
     ''Com base na transcri'' @ [CHR 0xE7] @ [CHR 0xE3] @ ''o, liste **INSIGHTS ACION'' @
     [CHR 0xC1] @ ''VEIS** de vendas. Organize sua resposta nas seguintes categorias:'' @
     [CHR 0x0A] @
     [CHR 0x0A] @
     ''- **Oportunidades de Venda**'' @ [CHR 0x0A] @
     ''- **Necessidades Expl'' @ [CHR 0xED] @ ''citas**'' @ [CHR 0x0A] @
     ''- **Necessidades Impl'' @ [CHR 0xED] @ ''citas**'' @ [CHR 0x0A] @
     ''- **Obje'' @ [CHR 0xE7] @ [CHR 0xF5] @ ''es**'' @ [CHR 0x0A] @
     ''- **Upsell/Cross-sell**'' @ [CHR 0x0A] @
     ''- **Estrat'' @ [CHR 0xE9] @ ''gias Comerciais**'' @ [CHR 0x0A] @
     ''- **Sentimento Geral**'' @ [CHR 0x0A] @
     [CHR 0x0A] @
     ''Responda em formato markdown.'' @ [CHR 0x0A]"

definition build_prompt :: "string \<Rightarrow> string" where
  "build_prompt transcript_text = prompt_head @ transcript_text @ prompt_tail"

text \<open>Lines 170 to 176: the fallback to the first part of the candidate.\<close>

definition fallback_text :: "Candidate \<Rightarrow> exc + string" where
  "fallback_text candidate =
     (case content candidate of
        None \<Rightarrow> Inr could_not_extract_msg
      | Some c \<Rightarrow>
          (case parts c of
             None \<Rightarrow> Inr could_not_extract_msg
           | Some [] \<Rightarrow> Inr could_not_extract_msg
           | Some (p # ps) \<Rightarrow>
               (case getattr (part_text p) of Inl e \<Rightarrow> Inl e | Inr t \<Rightarrow> Inr (strip t))))"

text \<open>Lines 157 to 176: what is returned, or raised inside the \<open>try\<close>, for a response.\<close>

definition insights_of_response :: "GenerateContentResponse \<Rightarrow> exc + string" where
  "insights_of_response response =
     (case (case prompt_feedback response of None \<Rightarrow> None | Some pf \<Rightarrow> block_reason pf) of
        Some reason \<Rightarrow> Inr (blocked_prefix @ reason)
      | None \<Rightarrow>
          (case candidates response of
             [] \<Rightarrow> Inr no_candidate_msg
           | candidate # rest \<Rightarrow>
               (case hasattr (response_text response) of
                  Inl e \<Rightarrow> Inl e
                | Inr False \<Rightarrow> fallback_text candidate
                | Inr True \<Rightarrow>
                    (case getattr (response_text response) of
                       Inl e \<Rightarrow> Inl e
                     | Inr t \<Rightarrow> if strip t \<noteq> [] then Inr (strip t)
                                else fallback_text candidate))))"

text \<open>Lines 151 to 176, the body of the \<open>try\<close> block.\<close>

definition insights_try ::
    "'w genai \<Rightarrow> string \<Rightarrow> 'w \<Rightarrow> (exc + string) \<times> event list \<times> 'w" where
  "insights_try client prompt w =
     (case GenerativeModel client MODEL_ID w of
        (Some e, w1) \<Rightarrow> (Inl e, [GenaiGenerativeModel MODEL_ID], w1)
      | (None, w1) \<Rightarrow>
          (case generate_content client MODEL_ID prompt TEMPERATURE w1 of
             (r, w2) \<Rightarrow>
               (case r of Inl e \<Rightarrow> Inl e | Inr response \<Rightarrow> insights_of_response response,
                [GenaiGenerativeModel MODEL_ID, GenaiGenerateContent MODEL_ID prompt TEMPERATURE],
                w2)))"

text \<open>
  \<open>genai.configure\<close> runs before the \<open>try\<close> block: what it raises leaves the function.
  Whatever the \<open>try\<close> block raises becomes the returned text.
\<close>

definition generate_sales_insights ::
    "config \<Rightarrow> 'w genai \<Rightarrow> string \<Rightarrow> 'w \<Rightarrow> (exc + string) \<times> event list \<times> 'w" where
  "generate_sales_insights cfg client transcript_text w =
     (if GOOGLE_API_KEY cfg = [] then (Inr not_configured_msg, [], w)
      else
        (case configure client (GOOGLE_API_KEY cfg) w of
           (Some e, w1) \<Rightarrow> (Inl e, [GenaiConfigure (GOOGLE_API_KEY cfg)], w1)
         | (None, w1) \<Rightarrow>
             (case insights_try client (build_prompt transcript_text) w1 of
                (res, evs, w2) \<Rightarrow>
                  (case res of
                     Inr s \<Rightarrow> Inr s
                   | Inl e \<Rightarrow> Inr (exception_prefix @ exc_str e),
                   GenaiConfigure (GOOGLE_API_KEY cfg) # evs, w2))))"

section \<open>main: one run of the page script\<close>

text \<open>
  Streamlit runs the script again on every interaction. \<open>st.session_state\<close> is the
  mapping that survives from one run to the next; \<open>st.button\<close> tells whether the widget
  was pressed for this run, which is a parameter here. The button of a listed transcript
  is identified by the id its key is built from.
\<close>

type_synonym session_state = "string \<rightharpoonup> json"

datatype widget = LoadButton | InsightsButton json

definition page_title :: string where
  "page_title = ''Neural Sales - Monol'' @ [CHR 0xED] @ ''tico''"

definition app_title :: string where
  "app_title = ''Neural Sales - Web App (Monol'' @ [CHR 0xED] @ ''tico)''"

definition intro_text :: string where
  "intro_text =
     [CHR 0x0A] @
     ''    **Vers'' @ [CHR 0xE3] @ ''o Inicial**  '' @ [CHR 0x0A] @
     ''    Esta aplica'' @ [CHR 0xE7] @ [CHR 0xE3] @ ''o lista transcri'' @ [CHR 0xE7] @
     [CHR 0xF5] @ ''es do Fireflies e permite gerar insights via modelo Gemini do Google.'' @
     [CHR 0x0A] @
     ''    ''"

definition nothing_listed_msg :: string where
  "nothing_listed_msg =
     ''Nenhuma transcri'' @ [CHR 0xE7] @ [CHR 0xE3] @ ''o listada ou bot'' @ [CHR 0xE3] @
     ''o '' @ [CHR 0x27] @ ''Carregar Lista de Transcri'' @ [CHR 0xE7] @ [CHR 0xF5] @ ''es'' @
     [CHR 0x27] @ '' n'' @ [CHR 0xE3] @ ''o foi clicado.''"

definition available_heading :: string where
  "available_heading =
     ''Transcri'' @ [CHR 0xE7] @ [CHR 0xF5] @ ''es Dispon'' @ [CHR 0xED] @ ''veis''"

definition default_title :: string where
  "default_title = ''T'' @ [CHR 0xED] @ ''tulo n'' @ [CHR 0xE3] @ ''o informado''"

definition id_prefix :: string where
  "id_prefix = ''**ID**: ''"

definition title_prefix :: string where
  "title_prefix = ''**T'' @ [CHR 0xED] @ ''tulo**: ''"

definition empty_transcript_msg :: string where
  "empty_transcript_msg =
     ''Transcri'' @ [CHR 0xE7] @ [CHR 0xE3] @ ''o vazia ou n'' @ [CHR 0xE3] @ ''o encontrada.''"

definition insights_done_msg :: string where
  "insights_done_msg = ''Insights Gerados!''"

definition separator :: string where
  "separator = ''---''"

text \<open>
  Lines 218 to 226, the body of the "Gerar Insights" button: the session state it is
  given and leaves, the exception that ends the run if any, the trace, the world.
\<close>

definition insights_flow ::
    "config \<Rightarrow> 'w http \<Rightarrow> 'w genai \<Rightarrow> session_state \<Rightarrow> json \<Rightarrow> 'w
       \<Rightarrow> session_state \<times> exc option \<times> event list \<times> 'w" where
  "insights_flow cfg post client s transcript_id w =
     (case get_transcript_text_by_id cfg post transcript_id w of
        (Inl e, evs, w1) \<Rightarrow> (s, Some e, evs, w1)
      | (Inr txt, evs, w1) \<Rightarrow>
          if strip txt = [] then (s, None, evs @ [StWarning empty_transcript_msg], w1)
          else
            (case generate_sales_insights cfg client txt w1 of
               (Inl e, evs', w2) \<Rightarrow> (s, Some e, evs @ evs', w2)
             | (Inr insights, evs', w2) \<Rightarrow>
                 (s, None,
                  evs @ evs' @ [StSuccess insights_done_msg, StMarkdown insights], w2)))"

text \<open>Lines 208 to 228, the body of the loop for one listed transcript.\<close>

definition render_transcript ::
    "config \<Rightarrow> 'w http \<Rightarrow> 'w genai \<Rightarrow> (widget \<Rightarrow> bool) \<Rightarrow> session_state \<Rightarrow> json \<Rightarrow> 'w
       \<Rightarrow> session_state \<times> exc option \<times> event list \<times> 'w" where
  "render_transcript cfg post client button s transcript w =
     (case py_getitem transcript ''id'' of
        Inl e \<Rightarrow> (s, Some e, [], w)
      | Inr transcript_id \<Rightarrow>
          (case py_get transcript ''title'' (JStr default_title) of
             Inl e \<Rightarrow> (s, Some e, [], w)
           | Inr title \<Rightarrow>
               (let shown = [StColumns [3, 1], StWrite (Fmt id_prefix transcript_id),
                             StWrite (Fmt title_prefix title)]
                in if button (InsightsButton transcript_id) then
                     (case insights_flow cfg post client s transcript_id w of
                        (s1, Some e, evs, w1) \<Rightarrow> (s1, Some e, shown @ evs, w1)
                      | (s1, None, evs, w1) \<Rightarrow>
                          (s1, None, shown @ evs @ [StMarkdown separator], w1))
                   else (s, None, shown @ [StMarkdown separator], w))))"

text \<open>The \<open>for\<close> loop of lines 207 to 228; an exception ends it.\<close>

fun render_transcripts ::
    "config \<Rightarrow> 'w http \<Rightarrow> 'w genai \<Rightarrow> (widget \<Rightarrow> bool) \<Rightarrow> session_state \<Rightarrow> json list \<Rightarrow> 'w
       \<Rightarrow> session_state \<times> exc option \<times> event list \<times> 'w" where
  "render_transcripts cfg post client button s [] w = (s, None, [], w)"
| "render_transcripts cfg post client button s (t # ts) w =
     (case render_transcript cfg post client button s t w of
        (s1, Some e, evs, w1) \<Rightarrow> (s1, Some e, evs, w1)
      | (s1, None, evs, w1) \<Rightarrow>
          (case render_transcripts cfg post client button s1 ts w1 of
             (s2, r, evs', w2) \<Rightarrow> (s2, r, evs @ evs', w2)))"

text \<open>Lines 194 and 195: the load button replaces the stored list.\<close>

definition load_transcripts ::
    "config \<Rightarrow> 'w http \<Rightarrow> (widget \<Rightarrow> bool) \<Rightarrow> session_state \<Rightarrow> 'w
       \<Rightarrow> session_state \<times> exc option \<times> event list \<times> 'w" where
  "load_transcripts cfg post button s w =
     (if button LoadButton then
        (case get_fireflies_transcripts cfg post w of
           (Inl e, evs, w1) \<Rightarrow> (s, Some e, evs, w1)
         | (Inr v, evs, w1) \<Rightarrow> (s(''transcripts'' \<mapsto> v), None, evs, w1))
      else (s, None, [], w))"

definition main ::
    "config \<Rightarrow> 'w http \<Rightarrow> 'w genai \<Rightarrow> (widget \<Rightarrow> bool) \<Rightarrow> session_state \<Rightarrow> 'w
       \<Rightarrow> session_state \<times> exc option \<times> event list \<times> 'w" where
  "main cfg post client button s w =
     (let header = [StSetPageConfig page_title ''wide'', StTitle app_title,
                    StWrite (Msg intro_text)]
      in case load_transcripts cfg post button s w of
           (s1, Some e, evs, w1) \<Rightarrow> (s1, Some e, header @ evs, w1)
         | (s1, None, evs, w1) \<Rightarrow>
             (let s2 = (if s1 ''transcripts'' = None then s1(''transcripts'' \<mapsto> JArr []) else s1);
                  transcripts = (case s2 ''transcripts'' of None \<Rightarrow> JArr [] | Some v \<Rightarrow> v)
              in if \<not> truthy transcripts then
                   (s2, None, header @ evs @ [StInfo nothing_listed_msg], w1)
                 else
                   (case py_iter transcripts of
                      Inl e \<Rightarrow> (s2, Some e, header @ evs @ [StSubheader available_heading], w1)
                    | Inr items \<Rightarrow>
                        (case render_transcripts cfg post client button s2 items w1 of
                           (s3, r, evs', w2) \<Rightarrow>
                             (s3, r, header @ evs @ [StSubheader available_heading] @ evs',
                              w2)))))"

section \<open>Auxiliary definitions for the statements\<close>

text \<open>The HTTP calls recorded in a trace.\<close>

fun posts :: "event list \<Rightarrow> request list" where
  "posts [] = []"
| "posts (RequestsPost r # evs) = r # posts evs"
| "posts (ev # evs) = posts evs"

text \<open>The notifications \<open>st.error\<close> recorded in a trace.\<close>

fun errors_shown :: "event list \<Rightarrow> message list" where
  "errors_shown [] = []"
| "errors_shown (StError m # evs) = m # errors_shown evs"
| "errors_shown (ev # evs) = errors_shown evs"

text \<open>
  The outcomes of a POST for which the \<open>try\<close> block of either GraphQL function ends in
  its \<open>except requests.RequestException\<close> handler or in its \<open>"errors" in data\<close> branch:
  a \<open>RequestException\<close> from the call, a 4xx or 5xx status, a \<open>RequestException\<close> from
  the decoder, or a decoded object that has the key \<open>errors\<close>.
\<close>

fun absorbed_failure :: "exc + response \<Rightarrow> bool" where
  "absorbed_failure (Inl e) = (exc_cls e = RequestException)"
| "absorbed_failure (Inr resp) =
     (raise_for_status resp \<noteq> None \<or>
      (case json_result resp of
         Inl e \<Rightarrow> exc_cls e = RequestException
       | Inr (JObj kvs) \<Rightarrow> map_of kvs ''errors'' \<noteq> None
       | Inr v \<Rightarrow> False))"

text \<open>
  A decoded body of the shape the listing query asks for: an object without \<open>errors\<close>
  whose \<open>data\<close> is missing or an object, in which \<open>transcripts\<close> is missing or a list.
\<close>

fun transcripts_value :: "(string \<times> json) list \<Rightarrow> bool" where
  "transcripts_value d =
     (case map_of d ''transcripts'' of
        None \<Rightarrow> True | Some (JArr xs) \<Rightarrow> True | Some v \<Rightarrow> False)"

fun listing_body :: "json \<Rightarrow> bool" where
  "listing_body (JObj kvs) =
     (map_of kvs ''errors'' = None \<and>
      (case map_of kvs ''data'' of
         None \<Rightarrow> True | Some (JObj d) \<Rightarrow> transcripts_value d | Some v \<Rightarrow> False))"
| "listing_body v = False"

text \<open>
  A decoded body of the shape the transcript query asks for: an object without \<open>errors\<close>;
  \<open>data\<close>, then \<open>transcript\<close>, missing or an object; \<open>sentences\<close> missing or a list of
  objects that each map \<open>text\<close> to a str.
\<close>

fun sentence_object :: "json \<Rightarrow> bool" where
  "sentence_object (JObj kvs) =
     (case map_of kvs ''text'' of Some (JStr t) \<Rightarrow> True | Some v \<Rightarrow> False | None \<Rightarrow> False)"
| "sentence_object v = False"

fun sentences_value :: "(string \<times> json) list \<Rightarrow> bool" where
  "sentences_value t =
     (case map_of t ''sentences'' of
        None \<Rightarrow> True | Some (JArr ss) \<Rightarrow> list_all sentence_object ss | Some v \<Rightarrow> False)"

fun transcript_value :: "(string \<times> json) list \<Rightarrow> bool" where
  "transcript_value d =
     (case map_of d ''transcript'' of
        None \<Rightarrow> True | Some (JObj t) \<Rightarrow> sentences_value t | Some v \<Rightarrow> False)"

fun transcript_body :: "json \<Rightarrow> bool" where
  "transcript_body (JObj kvs) =
     (map_of kvs ''errors'' = None \<and>
      (case map_of kvs ''data'' of
         None \<Rightarrow> True | Some (JObj d) \<Rightarrow> transcript_value d | Some v \<Rightarrow> False))"
| "transcript_body v = False"

text \<open>
  The texts joined with one newline between neighbours, written directly: the reference
  that the result of the fetcher is compared with.
\<close>

fun newline_join :: "string list \<Rightarrow> string" where
  "newline_join [] = []"
| "newline_join [t] = t"
| "newline_join (t # u # us) = t @ [CHR 0x0A] @ newline_join (u # us)"

text \<open>The item is an object whose \<open>text\<close> is the given str.\<close>

fun sentence_has_text :: "json \<Rightarrow> string \<Rightarrow> bool" where
  "sentence_has_text (JObj kvs) t = (map_of kvs ''text'' = Some (JStr t))"
| "sentence_has_text v t = False"

text \<open>A sentence object \<open>{"text": t}\<close>.\<close>

definition sentence :: "string \<Rightarrow> json" where
  "sentence t = JObj [(''text'', JStr t)]"

text \<open>
  An outcome of a POST that passes \<open>raise_for_status\<close> and decodes to a body with the
  given property.
\<close>

fun delivered_with :: "(json \<Rightarrow> bool) \<Rightarrow> exc + response \<Rightarrow> bool" where
  "delivered_with ok (Inl e) = False"
| "delivered_with ok (Inr resp) =
     (raise_for_status resp = None \<and>
      (case json_result resp of Inl e \<Rightarrow> False | Inr body \<Rightarrow> ok body))"

text \<open>
  What the generator reads of a response: the block reason that lines 158 and 159 test,
  whether the primary text is missing or blank after trimming, and the text attribute of
  the first part of a candidate, if the candidate has a part.
\<close>

definition reported_block_reason :: "GenerateContentResponse \<Rightarrow> string option" where
  "reported_block_reason response =
     (case prompt_feedback response of None \<Rightarrow> None | Some pf \<Rightarrow> block_reason pf)"

fun blank_primary :: "string attr \<Rightarrow> bool" where
  "blank_primary Absent = True"
| "blank_primary (Present t) = (strip t = [])"
| "blank_primary (Raises e) = False"

definition first_segment :: "Candidate \<Rightarrow> string attr option" where
  "first_segment candidate =
     (case content candidate of
        None \<Rightarrow> None
      | Some c \<Rightarrow>
          (case parts c of None \<Rightarrow> None | Some [] \<Rightarrow> None | Some (p # ps) \<Rightarrow> Some (part_text p)))"

subsection \<open>Test doubles\<close>

definition example_config :: config where
  "example_config =
     \<lparr>FIRELIES_API_KEY = ''fk'', FIRELIES_GRAPHQL_ENDPOINT = ''https://fireflies.example/graphql'',
      GOOGLE_API_KEY = ''gk''\<rparr>"

definition ok_response :: "json \<Rightarrow> response" where
  "ok_response body = \<lparr>status_code = 200, http_error_str = [], json_result = Inr body\<rparr>"

text \<open>A response with status 500 that carries the given body.\<close>

definition server_error_response :: "json \<Rightarrow> response" where
  "server_error_response body =
     \<lparr>status_code = 500, http_error_str = ''500 Server Error'', json_result = Inr body\<rparr>"

text \<open>An HTTP client that gives every call the same outcome and counts the calls.\<close>

definition fixed_http :: "exc + response \<Rightarrow> nat http" where
  "fixed_http out req n = (out, Suc n)"

text \<open>
  A generative-AI client with a fixed behaviour for \<open>configure\<close>, for the constructor
  and for \<open>generate_content\<close>; it counts the calls.
\<close>

definition stub_genai ::
    "exc option \<Rightarrow> exc option \<Rightarrow> exc + GenerateContentResponse \<Rightarrow> nat genai" where
  "stub_genai c m g =
     \<lparr>configure = (\<lambda>k n. (c, Suc n)),
      GenerativeModel = (\<lambda>i n. (m, Suc n)),
      generate_content = (\<lambda>i p t n. (g, Suc n))\<rparr>"

text \<open>A response whose only candidate has one part with the given text.\<close>

definition one_part_response :: "string attr \<Rightarrow> string \<Rightarrow> GenerateContentResponse" where
  "one_part_response primary segment =
     \<lparr>prompt_feedback = None,
      candidates = [\<lparr>content = Some \<lparr>parts = Some [\<lparr>part_text = Present segment\<rparr>]\<rparr>\<rparr>],
      response_text = primary\<rparr>"

text \<open>Only the button of the given transcript id is pressed.\<close>

definition insights_pressed :: "json \<Rightarrow> widget \<Rightarrow> bool" where
  "insights_pressed transcript_id b = (b = InsightsButton transcript_id)"

text \<open>
  A session that lists the transcript \<open>t1\<close>, a body that answers the transcript query
  with two sentences, and a body that answers the listing query.
\<close>

definition example_session :: session_state where
  "example_session =
     [''transcripts'' \<mapsto> JArr [JObj [(''id'', JStr ''t1''), (''title'', JStr ''Call'')]]]"

definition hello_world_body :: json where
  "hello_world_body =
     JObj [(''data'', JObj [(''transcript'',
       JObj [(''sentences'', JArr [sentence ''Hello'', sentence ''world''])])])]"

definition no_sentences_body :: json where
  "no_sentences_body =
     JObj [(''data'', JObj [(''transcript'', JObj [(''sentences'', JArr [])])])]"

definition listing_example_body :: json where
  "listing_example_body =
     JObj [(''data'', JObj [(''transcripts'',
       JArr [JObj [(''id'', JStr ''t1''), (''title'', JStr ''Call'')]])])]"

text \<open>
  Responses of the model: blocked; without candidates; with a candidate that has no
  content.
\<close>

definition blocked_response :: "string \<Rightarrow> GenerateContentResponse" where
  "blocked_response reason =
     \<lparr>prompt_feedback = Some \<lparr>block_reason = Some reason\<rparr>,
      candidates = [\<lparr>content = Some \<lparr>parts = Some [\<lparr>part_text = Present ''hidden''\<rparr>]\<rparr>\<rparr>],
      response_text = Present ''hidden''\<rparr>"

definition no_candidates_response :: GenerateContentResponse where
  "no_candidates_response =
     \<lparr>prompt_feedback = Some \<lparr>block_reason = None\<rparr>, candidates = [],
      response_text = Present ''unused''\<rparr>"

definition contentless_response :: GenerateContentResponse where
  "contentless_response =
     \<lparr>prompt_feedback = None, candidates = [\<lparr>content = None\<rparr>], response_text = Absent\<rparr>"

text \<open>Bodies with a null \<open>data\<close> field, and with a sentence that has no \<open>text\<close>.\<close>

definition null_data_body :: json where
  "null_data_body = JObj [(''data'', JNull)]"

definition textless_sentence_body :: json where
  "textless_sentence_body =
     JObj [(''data'', JObj [(''transcript'', JObj [(''sentences'', JArr [JObj []])])])]"

section \<open>Facts about the steps of the GraphQL functions\<close>

lemma transcripts_of_response_errors:
  "raise_for_status resp = None \<Longrightarrow> json_result resp = Inr (JObj kvs) \<Longrightarrow>
   map_of kvs ''errors'' = Some errs \<Longrightarrow>
   transcripts_of_response resp = (Inr (JArr []), [StError (Fmt graphql_errors_prefix errs)])"
  by (simp add: transcripts_of_response_def)

lemma text_of_response_errors:
  "raise_for_status resp = None \<Longrightarrow> json_result resp = Inr (JObj kvs) \<Longrightarrow>
   map_of kvs ''errors'' = Some errs \<Longrightarrow>
   text_of_response resp = (Inr [], [StError (Fmt graphql_errors_prefix errs)])"
  by (simp add: text_of_response_def)

lemma lister_delivered:
  "FIRELIES_API_KEY cfg \<noteq> [] \<Longrightarrow> FIRELIES_GRAPHQL_ENDPOINT cfg \<noteq> [] \<Longrightarrow>
   post (transcripts_request cfg) w = (Inr resp, w1) \<Longrightarrow>
   transcripts_of_response resp = (Inr v, evs) \<Longrightarrow>
   get_fireflies_transcripts cfg post w =
     (Inr v, RequestsPost (transcripts_request cfg) # evs, w1)"
  by (simp add: get_fireflies_transcripts_def)

lemma fetcher_delivered:
  "post (transcript_request cfg tid) w = (Inr resp, w1) \<Longrightarrow>
   text_of_response resp = (Inr v, evs) \<Longrightarrow>
   get_transcript_text_by_id cfg post tid w =
     (Inr v, RequestsPost (transcript_request cfg tid) # evs, w1)"
  by (simp add: get_transcript_text_by_id_def)

lemma raise_for_status_cls:
  "raise_for_status resp = Some e \<Longrightarrow> exc_cls e = RequestException"
  by (auto simp: raise_for_status_def split: if_splits)

lemma lister_absorbs:
  "absorbed_failure out \<Longrightarrow> post (transcripts_request cfg) w = (out, w1) \<Longrightarrow>
   fst (get_fireflies_transcripts cfg post w) = Inr (JArr []) \<and>
   errors_shown (fst (snd (get_fireflies_transcripts cfg post w))) \<noteq> []"
  by (cases out)
     (auto simp: get_fireflies_transcripts_def transcripts_of_response_def Let_def
        dest: raise_for_status_cls split: sum.splits json.splits option.splits if_splits)

lemma fetcher_absorbs:
  "absorbed_failure out \<Longrightarrow> post (transcript_request cfg tid) w = (out, w1) \<Longrightarrow>
   fst (get_transcript_text_by_id cfg post tid w) = Inr [] \<and>
   errors_shown (fst (snd (get_transcript_text_by_id cfg post tid w))) \<noteq> []"
  by (cases out)
     (auto simp: get_transcript_text_by_id_def text_of_response_def Let_def
        dest: raise_for_status_cls split: sum.splits json.splits option.splits if_splits)

lemma sentence_texts_of_texts:
  "list_all2 sentence_has_text ss texts \<Longrightarrow> sentence_texts ss = Inr (map JStr texts)"
proof (induction ss texts rule: list_all2_induct)
  case Nil
  show ?case by simp
next
  case (Cons s ss t ts)
  from Cons.hyps(1) obtain kvs where "s = JObj kvs" "map_of kvs ''text'' = Some (JStr t)"
    by (cases s) auto
  with Cons.IH show ?case by simp
qed

lemma py_join_strings: "py_join [CHR 0x0A] (map JStr texts) = Inr (newline_join texts)"
  by (induction texts rule: newline_join.induct) simp_all

lemma join_sentences_texts:
  assumes "map_of kvs ''data'' = Some (JObj d)"
    and "map_of d ''transcript'' = Some (JObj t)"
    and "map_of t ''sentences'' = Some (JArr ss)"
    and "list_all2 sentence_has_text ss texts"
  shows "join_sentences (JObj kvs) = Inr (newline_join texts)"
  using assms by (simp add: join_sentences_def sentence_texts_of_texts py_join_strings)

lemma lister_outcome_only:
  "fst (post (transcripts_request cfg) w) = fst (post' (transcripts_request cfg) w') \<Longrightarrow>
   fst (get_fireflies_transcripts cfg post w) = fst (get_fireflies_transcripts cfg post' w') \<and>
   fst (snd (get_fireflies_transcripts cfg post w)) =
     fst (snd (get_fireflies_transcripts cfg post' w'))"
  by (cases "post (transcripts_request cfg) w"; cases "post' (transcripts_request cfg) w'")
     (auto simp: get_fireflies_transcripts_def Let_def split: prod.splits sum.splits)

lemma sentence_objects_join:
  "list_all sentence_object ss \<Longrightarrow>
   \<exists>t. (case sentence_texts ss of Inl e \<Rightarrow> Inl e | Inr ts \<Rightarrow> py_join [CHR 0x0A] ts) = Inr t"
proof -
  assume a: "list_all sentence_object ss"
  have "\<exists>texts. list_all2 sentence_has_text ss texts"
    using a
  proof (induction ss)
    case Nil
    show ?case by simp
  next
    case (Cons s ss)
    then obtain texts where t: "list_all2 sentence_has_text ss texts" by auto
    from Cons.prems obtain u where "sentence_has_text s u"
      by (cases s) (auto split: option.splits json.splits)
    with t have "list_all2 sentence_has_text (s # ss) (u # texts)" by simp
    then show ?case by blast
  qed
  then obtain texts where "list_all2 sentence_has_text ss texts" ..
  then show ?thesis
    by (simp add: sentence_texts_of_texts py_join_strings)
qed

lemma join_sentences_shaped:
  "transcript_body body \<Longrightarrow> \<exists>t. join_sentences body = Inr t"
  by (cases body)
     (auto simp: join_sentences_def dest: sentence_objects_join
        split: option.splits json.splits)

lemma transcripts_shaped:
  "listing_body body \<Longrightarrow> raise_for_status resp = None \<Longrightarrow> json_result resp = Inr body \<Longrightarrow>
   \<exists>xs. transcripts_of_response resp = (Inr (JArr xs), [])"
  by (cases body)
     (auto simp: transcripts_of_response_def split: option.splits json.splits)

lemma lister_shaped:
  assumes "delivered_with listing_body out" and "post (transcripts_request cfg) w = (out, w1)"
  shows "\<exists>xs. fst (get_fireflies_transcripts cfg post w) = Inr (JArr xs)"
proof (cases "FIRELIES_API_KEY cfg = [] \<or> FIRELIES_GRAPHQL_ENDPOINT cfg = []")
  case True
  then show ?thesis by (simp add: get_fireflies_transcripts_def)
next
  case False
  from assms(1) obtain resp body where o: "out = Inr resp" "raise_for_status resp = None"
      "json_result resp = Inr body" "listing_body body"
    by (cases out) (auto split: sum.splits)
  from transcripts_shaped [OF o(4) o(2) o(3)]
  obtain xs where "transcripts_of_response resp = (Inr (JArr xs), [])" ..
  from lister_delivered [where post = post, OF _ _ assms(2) [unfolded o(1)] this] False
  show ?thesis by simp
qed

lemma fetcher_shaped:
  assumes "delivered_with transcript_body out"
    and "post (transcript_request cfg tid) w = (out, w1)"
  shows "\<exists>t. fst (get_transcript_text_by_id cfg post tid w) = Inr t"
proof -
  from assms(1) obtain resp body where o: "out = Inr resp" "raise_for_status resp = None"
      "json_result resp = Inr body" "transcript_body body"
    by (cases out) (auto split: sum.splits)
  from o(4) obtain kvs where b: "body = JObj kvs" "map_of kvs ''errors'' = None"
    by (cases body) auto
  from join_sentences_shaped [OF o(4)] obtain t where "join_sentences body = Inr t" ..
  with o b have "text_of_response resp = (Inr t, [])"
    by (simp add: text_of_response_def)
  from fetcher_delivered [where post = post, OF assms(2) [unfolded o(1)] this]
  show ?thesis by simp
qed

section \<open>Facts about the generator and the page script\<close>

lemma generator_delivered:
  assumes "GOOGLE_API_KEY cfg \<noteq> []"
    and "configure client (GOOGLE_API_KEY cfg) w = (None, w1)"
    and "GenerativeModel client MODEL_ID w1 = (None, w2)"
    and "generate_content client MODEL_ID (build_prompt txt) TEMPERATURE w2 = (Inr response, w3)"
  shows "fst (generate_sales_insights cfg client txt w) =
           Inr (case insights_of_response response of
                  Inr s \<Rightarrow> s | Inl e \<Rightarrow> exception_prefix @ exc_str e)"
  using assms by (simp add: generate_sales_insights_def insights_try_def split: sum.splits)

lemma insights_blocked:
  "reported_block_reason response = Some reason \<Longrightarrow>
   insights_of_response response = Inr (blocked_prefix @ reason)"
  by (simp add: insights_of_response_def reported_block_reason_def)

lemma insights_no_candidate:
  "reported_block_reason response = None \<Longrightarrow> candidates response = [] \<Longrightarrow>
   insights_of_response response = Inr no_candidate_msg"
  by (simp add: insights_of_response_def reported_block_reason_def)

lemma insights_primary:
  "reported_block_reason response = None \<Longrightarrow> candidates response = c # cs \<Longrightarrow>
   response_text response = Present t \<Longrightarrow> strip t \<noteq> [] \<Longrightarrow>
   insights_of_response response = Inr (strip t)"
  by (simp add: insights_of_response_def reported_block_reason_def)

lemma insights_fallback:
  "reported_block_reason response = None \<Longrightarrow> candidates response = c # cs \<Longrightarrow>
   blank_primary (response_text response) \<Longrightarrow>
   insights_of_response response = fallback_text c"
  by (cases "response_text response")
     (simp_all add: insights_of_response_def reported_block_reason_def)

lemma fallback_segment:
  "first_segment c = Some (Present seg) \<Longrightarrow> fallback_text c = Inr (strip seg)"
  by (auto simp: first_segment_def fallback_text_def split: option.splits list.splits)

lemma fallback_nothing:
  "first_segment c = None \<Longrightarrow> fallback_text c = Inr could_not_extract_msg"
  by (auto simp: first_segment_def fallback_text_def split: option.splits list.splits)

lemma insights_flow_state: "fst (insights_flow cfg post client s tid w) = s"
  by (simp add: insights_flow_def split: prod.splits sum.splits)

lemma insights_flow_shape:
  "\<exists>r evs w1. insights_flow cfg post client s tid w = (s, r, evs, w1)"
  using insights_flow_state [of cfg post client s tid w]
  by (cases "insights_flow cfg post client s tid w") simp

lemma render_transcript_shape:
  "\<exists>r evs w1. render_transcript cfg post client button s t w = (s, r, evs, w1)"
proof (cases "py_getitem t ''id''")
  case (Inl e)
  then show ?thesis by (simp add: render_transcript_def)
next
  case (Inr tid)
  note i = this
  show ?thesis
  proof (cases "py_get t ''title'' (JStr default_title)")
    case (Inl e)
    with i show ?thesis by (simp add: render_transcript_def)
  next
    case (Inr title)
    obtain r evs w1 where f: "insights_flow cfg post client s tid w = (s, r, evs, w1)"
      using insights_flow_shape [of cfg post client s tid w] by blast
    show ?thesis
      by (cases r) (simp_all add: render_transcript_def i Inr f Let_def)
  qed
qed

lemma render_transcripts_shape:
  "\<exists>r evs w1. render_transcripts cfg post client button s ts w = (s, r, evs, w1)"
proof (induction ts arbitrary: w)
  case Nil
  show ?case by simp
next
  case (Cons t ts)
  obtain r evs w1 where f: "render_transcript cfg post client button s t w = (s, r, evs, w1)"
    using render_transcript_shape [of cfg post client button s t w] by blast
  obtain r' evs' w2 where g: "render_transcripts cfg post client button s ts w1 = (s, r', evs', w2)"
    using Cons.IH [of w1] by blast
  show ?case
    by (cases r) (simp_all add: f g)
qed


lemma main_without_load:
  assumes "\<not> button LoadButton"
  shows "fst (main cfg post client button s w) =
           (if s ''transcripts'' = None then s(''transcripts'' \<mapsto> JArr []) else s)"
proof -
  define s2 where "s2 = (if s ''transcripts'' = None then s(''transcripts'' \<mapsto> JArr []) else s)"
  define ts where "ts = (case s2 ''transcripts'' of None \<Rightarrow> JArr [] | Some v \<Rightarrow> v)"
  have l: "load_transcripts cfg post button s w = (s, None, [], w)"
    using assms by (simp add: load_transcripts_def)
  have m: "fst (main cfg post client button s w) =
      fst (if \<not> truthy ts then (s2, None, [StInfo nothing_listed_msg], w)
       else (case py_iter ts of
               Inl e \<Rightarrow> (s2, Some e, [], w)
             | Inr items \<Rightarrow> render_transcripts cfg post client button s2 items w))"
    by (simp add: main_def l Let_def s2_def ts_def split: sum.splits prod.splits)
  have "fst (main cfg post client button s w) = s2"
  proof (cases "py_iter ts")
    case (Inl e)
    then show ?thesis by (simp add: m)
  next
    case (Inr items)
    obtain r evs w1 where
      "render_transcripts cfg post client button s2 items w = (s2, r, evs, w1)"
      using render_transcripts_shape [of cfg post client button s2 items w] by blast
    with Inr show ?thesis by (simp add: m)
  qed
  then show ?thesis by (simp add: s2_def)
qed

section \<open>Missing configuration\<close>

text \<open>
  C5. Whenever the transcription API key or the GraphQL endpoint is empty,
  \<open>get_fireflies_transcripts\<close> shows the configuration error, returns the empty list and
  makes no HTTP call: the trace holds the one notification and no POST, and the world
  is the one it started in, whatever the HTTP client would have done.
\<close>

theorem lister_missing_config_no_call:
  "FIRELIES_API_KEY cfg = [] \<or> FIRELIES_GRAPHQL_ENDPOINT cfg = [] \<Longrightarrow>
   get_fireflies_transcripts cfg post w =
     (Inr (JArr []), [StError (Msg missing_config_msg)], w)
   \<and> posts (fst (snd (get_fireflies_transcripts cfg post w))) = []"
  by (simp add: get_fireflies_transcripts_def)

theorem lister_missing_config_no_call_witness:
  "get_fireflies_transcripts (example_config\<lparr>FIRELIES_GRAPHQL_ENDPOINT := []\<rparr>)
     (fixed_http (Inr (ok_response (JObj [])))) 0 =
     (Inr (JArr []), [StError (Msg missing_config_msg)], 0)"
  using lister_missing_config_no_call
    [of "example_config\<lparr>FIRELIES_GRAPHQL_ENDPOINT := []\<rparr>"
        "fixed_http (Inr (ok_response (JObj [])))" 0]
  by simp

text \<open>
  C6. Whenever the generative-AI key is empty, \<open>generate_sales_insights\<close> returns the
  fixed not-configured message for every input text; it does not raise, and it calls
  nothing of the client: the trace is empty and the world unchanged.
\<close>

theorem generator_missing_key_no_call:
  "GOOGLE_API_KEY cfg = [] \<Longrightarrow>
   generate_sales_insights cfg client transcript_text w = (Inr not_configured_msg, [], w)"
  by (simp add: generate_sales_insights_def)

theorem generator_missing_key_no_call_witness:
  "generate_sales_insights (example_config\<lparr>GOOGLE_API_KEY := []\<rparr>)
     (stub_genai None None (Inl (Exc OtherError ''unreachable''))) ''Hello'' 0 =
     (Inr not_configured_msg, [], 0)"
  using generator_missing_key_no_call
    [of "example_config\<lparr>GOOGLE_API_KEY := []\<rparr>"
        "stub_genai None None (Inl (Exc OtherError ''unreachable''))" "''Hello''" 0]
  by simp

section \<open>The GraphQL error branch\<close>

text \<open>
  C7, as the code has it. \<open>raise_for_status\<close> runs before the body is read, so for a
  response with status 500 whose body carries a non-empty \<open>errors\<close> array both functions
  show the request failure, not the error list: the claim's "both report the error list"
  fails there.
\<close>

theorem error_status_hides_error_list:
  "get_fireflies_transcripts example_config
     (fixed_http (Inr (server_error_response (JObj [(''errors'', JArr [JStr ''denied''])])))) 0 =
     (Inr (JArr []),
      [RequestsPost (transcripts_request example_config),
       StError (Msg (request_failed_prefix @ ''500 Server Error''))], 1) \<and>
   get_transcript_text_by_id example_config
     (fixed_http (Inr (server_error_response (JObj [(''errors'', JArr [JStr ''denied''])]))))
     (JStr ''t1'') 0 =
     (Inr [],
      [RequestsPost (transcript_request example_config (JStr ''t1'')),
       StError (Msg (request_failed_prefix @ ''500 Server Error''))], 1) \<and>
   Fmt graphql_errors_prefix (JArr [JStr ''denied'']) \<notin>
     set (errors_shown (fst (snd (get_fireflies_transcripts example_config
       (fixed_http (Inr (server_error_response (JObj [(''errors'', JArr [JStr ''denied''])]))))
       0)))) \<and>
   Fmt graphql_errors_prefix (JArr [JStr ''denied'']) \<notin>
     set (errors_shown (fst (snd (get_transcript_text_by_id example_config
       (fixed_http (Inr (server_error_response (JObj [(''errors'', JArr [JStr ''denied''])]))))
       (JStr ''t1'') 0))))"
  by (simp add: get_fireflies_transcripts_def get_transcript_text_by_id_def example_config_def
        fixed_http_def server_error_response_def transcripts_of_response_def
        text_of_response_def raise_for_status_def)

text \<open>
  C7, amended. When the decoded body of the response is an object whose \<open>errors\<close> is a
  non-empty array, \<open>get_fireflies_transcripts\<close> returns the empty list and
  \<open>get_transcript_text_by_id\<close> the empty string, neither raises, and each shows an
  error to the user, whatever the status code and the configuration. When the status
  passes \<open>raise_for_status\<close> (it is not 4xx or 5xx; 200, say) the one error shown is the
  error list of the body, and the trace is the POST followed by that notification.
\<close>

theorem graphql_errors_give_defaults:
  assumes body: "json_result resp = Inr (JObj kvs)"
    and errs: "map_of kvs ''errors'' = Some (JArr es)" and "es \<noteq> []"
    and p1: "post (transcripts_request cfg) w = (Inr resp, w1)"
    and p2: "post (transcript_request cfg tid) w = (Inr resp, w2)"
  shows "fst (get_fireflies_transcripts cfg post w) = Inr (JArr []) \<and>
         errors_shown (fst (snd (get_fireflies_transcripts cfg post w))) \<noteq> [] \<and>
         fst (get_transcript_text_by_id cfg post tid w) = Inr [] \<and>
         errors_shown (fst (snd (get_transcript_text_by_id cfg post tid w))) \<noteq> [] \<and>
         (raise_for_status resp = None \<longrightarrow>
            get_transcript_text_by_id cfg post tid w =
              (Inr [], [RequestsPost (transcript_request cfg tid),
                        StError (Fmt graphql_errors_prefix (JArr es))], w2)) \<and>
         (raise_for_status resp = None \<longrightarrow>
          FIRELIES_API_KEY cfg \<noteq> [] \<longrightarrow> FIRELIES_GRAPHQL_ENDPOINT cfg \<noteq> [] \<longrightarrow>
            get_fireflies_transcripts cfg post w =
              (Inr (JArr []), [RequestsPost (transcripts_request cfg),
                               StError (Fmt graphql_errors_prefix (JArr es))], w1))"
proof -
  have a: "absorbed_failure (Inr resp)" using body errs by simp
  note l = lister_absorbs [where post=post, OF a p1]
  note f = fetcher_absorbs [where post=post, OF a p2]
  have t: "raise_for_status resp = None \<Longrightarrow>
     get_transcript_text_by_id cfg post tid w =
              (Inr [], [RequestsPost (transcript_request cfg tid),
                        StError (Fmt graphql_errors_prefix (JArr es))], w2)"
    using fetcher_delivered [where post=post, OF p2 text_of_response_errors [OF _ body errs]] by simp
  have g: "raise_for_status resp = None \<Longrightarrow>
          FIRELIES_API_KEY cfg \<noteq> [] \<Longrightarrow> FIRELIES_GRAPHQL_ENDPOINT cfg \<noteq> [] \<Longrightarrow>
            get_fireflies_transcripts cfg post w =
              (Inr (JArr []), [RequestsPost (transcripts_request cfg),
                               StError (Fmt graphql_errors_prefix (JArr es))], w1)"
    using lister_delivered [where post=post, OF _ _ p1 transcripts_of_response_errors [OF _ body errs]] by simp
  show ?thesis using l f t g by blast
qed

theorem graphql_errors_give_defaults_witness:
  "get_fireflies_transcripts example_config
     (fixed_http (Inr (ok_response (JObj [(''errors'', JArr [JStr ''denied''])])))) 0 =
     (Inr (JArr []),
      [RequestsPost (transcripts_request example_config),
       StError (Fmt graphql_errors_prefix (JArr [JStr ''denied'']))], 1) \<and>
   get_transcript_text_by_id example_config
     (fixed_http (Inr (ok_response (JObj [(''errors'', JArr [JStr ''denied''])])))) (JStr ''t1'') 0 =
     (Inr [],
      [RequestsPost (transcript_request example_config (JStr ''t1'')),
       StError (Fmt graphql_errors_prefix (JArr [JStr ''denied'']))], 1)"
  using graphql_errors_give_defaults
    [of "ok_response (JObj [(''errors'', JArr [JStr ''denied''])])"
        "[(''errors'', JArr [JStr ''denied''])]" "[JStr ''denied'']"
        "fixed_http (Inr (ok_response (JObj [(''errors'', JArr [JStr ''denied''])])))"
        example_config 0 1 "JStr ''t1''" 1]
  by (simp add: ok_response_def fixed_http_def raise_for_status_def example_config_def)

text \<open>
  C10. The branch tests the presence of the key only: for a response with status 200
  whose decoded body maps \<open>errors\<close> to the empty array, whatever else the body holds,
  both functions show the (empty) error list and return their empty default.
\<close>

theorem errors_key_alone_triggers:
  assumes "status_code resp = 200"
    and "json_result resp = Inr (JObj kvs)"
    and "map_of kvs ''errors'' = Some (JArr [])"
    and "FIRELIES_API_KEY cfg \<noteq> []" and "FIRELIES_GRAPHQL_ENDPOINT cfg \<noteq> []"
    and "post (transcripts_request cfg) w = (Inr resp, w1)"
    and "post (transcript_request cfg tid) w = (Inr resp, w2)"
  shows "get_fireflies_transcripts cfg post w =
           (Inr (JArr []), [RequestsPost (transcripts_request cfg),
                            StError (Fmt graphql_errors_prefix (JArr []))], w1) \<and>
         get_transcript_text_by_id cfg post tid w =
           (Inr [], [RequestsPost (transcript_request cfg tid),
                     StError (Fmt graphql_errors_prefix (JArr []))], w2)"
proof -
  have ok: "raise_for_status resp = None"
    using assms(1) by (simp add: raise_for_status_def)
  show ?thesis
    using lister_delivered [where post=post, OF assms(4) assms(5) assms(6)
            transcripts_of_response_errors [OF ok assms(2) assms(3)]]
          fetcher_delivered [where post=post, OF assms(7) text_of_response_errors [OF ok assms(2) assms(3)]]
    by simp
qed

theorem errors_key_alone_triggers_witness:
  "get_fireflies_transcripts example_config
     (fixed_http (Inr (ok_response (JObj [(''errors'', JArr []), (''data'', JObj [(''transcripts'', JArr [JObj [(''id'', JStr ''t1'')]])])])))) 0 =
     (Inr (JArr []),
      [RequestsPost (transcripts_request example_config),
       StError (Fmt graphql_errors_prefix (JArr []))], 1) \<and>
   get_transcript_text_by_id example_config
     (fixed_http (Inr (ok_response (JObj [(''errors'', JArr []), (''data'', JObj [(''transcripts'', JArr [JObj [(''id'', JStr ''t1'')]])])])))) (JStr ''t1'') 0 =
     (Inr [],
      [RequestsPost (transcript_request example_config (JStr ''t1'')),
       StError (Fmt graphql_errors_prefix (JArr []))], 1)"
  using errors_key_alone_triggers
    [of "ok_response (JObj [(''errors'', JArr []), (''data'', JObj [(''transcripts'', JArr [JObj [(''id'', JStr ''t1'')]])])])"
        "[(''errors'', JArr []), (''data'', JObj [(''transcripts'', JArr [JObj [(''id'', JStr ''t1'')]])])]"
        example_config
        "fixed_http (Inr (ok_response (JObj [(''errors'', JArr []), (''data'', JObj [(''transcripts'', JArr [JObj [(''id'', JStr ''t1'')]])])])))"
        0 1 "JStr ''t1''" 1]
  by (simp add: ok_response_def fixed_http_def example_config_def)

section \<open>The text of a transcript\<close>

text \<open>
  C4. For a response that passes \<open>raise_for_status\<close> and whose decoded body has no
  \<open>errors\<close> key and carries, under \<open>data.transcript.sentences\<close>, a list of sentence
  objects with the texts \<open>texts\<close> in this order, \<open>get_transcript_text_by_id\<close> returns
  the texts joined with one newline between neighbours, in that order, and shows nothing
  to the user. For the texts Hello and world the result is exactly Hello, a newline,
  world; for no sentence it is the empty string.
\<close>

theorem fetcher_joins_sentences:
  assumes "post (transcript_request cfg tid) w = (Inr resp, w1)"
    and "raise_for_status resp = None"
    and "json_result resp = Inr (JObj kvs)"
    and "map_of kvs ''errors'' = None"
    and "map_of kvs ''data'' = Some (JObj d)"
    and "map_of d ''transcript'' = Some (JObj t)"
    and "map_of t ''sentences'' = Some (JArr ss)"
    and "list_all2 sentence_has_text ss texts"
  shows "get_transcript_text_by_id cfg post tid w =
           (Inr (newline_join texts), [RequestsPost (transcript_request cfg tid)], w1) \<and>
         (texts = [''Hello'', ''world''] \<longrightarrow>
            fst (get_transcript_text_by_id cfg post tid w) =
              Inr (''Hello'' @ [CHR 0x0A] @ ''world'')) \<and>
         (texts = [] \<longrightarrow> fst (get_transcript_text_by_id cfg post tid w) = Inr [])"
proof -
  have "text_of_response resp = (Inr (newline_join texts), [])"
    using assms(2-4) join_sentences_texts [OF assms(5-8)]
    by (simp add: text_of_response_def)
  from fetcher_delivered [where post = post, OF assms(1) this]
  show ?thesis by simp
qed

theorem fetcher_joins_sentences_witness:
  "get_transcript_text_by_id example_config (fixed_http (Inr (ok_response hello_world_body)))
     (JStr ''t1'') 0 =
     (Inr (''Hello'' @ [CHR 0x0A] @ ''world''),
      [RequestsPost (transcript_request example_config (JStr ''t1''))], 1) \<and>
   get_transcript_text_by_id example_config (fixed_http (Inr (ok_response no_sentences_body)))
     (JStr ''t1'') 0 =
     (Inr [], [RequestsPost (transcript_request example_config (JStr ''t1''))], 1)"
  using fetcher_joins_sentences
    [of "fixed_http (Inr (ok_response hello_world_body))" example_config "JStr ''t1''" 0
        "ok_response hello_world_body" 1
        "[(''data'', JObj [(''transcript'',
            JObj [(''sentences'', JArr [sentence ''Hello'', sentence ''world''])])])]"
        "[(''transcript'', JObj [(''sentences'', JArr [sentence ''Hello'', sentence ''world''])])]"
        "[(''sentences'', JArr [sentence ''Hello'', sentence ''world''])]"
        "[sentence ''Hello'', sentence ''world'']" "[''Hello'', ''world'']"]
    fetcher_joins_sentences
    [of "fixed_http (Inr (ok_response no_sentences_body))" example_config "JStr ''t1''" 0
        "ok_response no_sentences_body" 1
        "[(''data'', JObj [(''transcript'', JObj [(''sentences'', JArr [])])])]"
        "[(''transcript'', JObj [(''sentences'', JArr [])])]"
        "[(''sentences'', JArr [])]" "[]" "[]"]
  by (simp add: fixed_http_def ok_response_def hello_world_body_def no_sentences_body_def
        sentence_def raise_for_status_def)

section \<open>Listing twice\<close>

text \<open>
  C9. Two successive calls of \<open>get_fireflies_transcripts\<close>, the second in the world the
  first one left, return the same value (the same list, in the same order, or the same
  exception) and show the same trace whenever the HTTP client gives the same outcome
  to the listing request in both worlds.
\<close>

theorem lister_idempotent:
  assumes "get_fireflies_transcripts cfg post w = (r1, evs1, w1)"
    and "get_fireflies_transcripts cfg post w1 = (r2, evs2, w2)"
    and "fst (post (transcripts_request cfg) w) = fst (post (transcripts_request cfg) w1)"
  shows "r1 = r2 \<and> evs1 = evs2"
  using lister_outcome_only [where post = post and post' = post, OF assms(3)] assms(1,2)
  by simp

theorem lister_idempotent_witness:
  "get_fireflies_transcripts example_config
     (fixed_http (Inr (ok_response listing_example_body))) 0 =
     (Inr (JArr [JObj [(''id'', JStr ''t1''), (''title'', JStr ''Call'')]]),
      [RequestsPost (transcripts_request example_config)], 1) \<and>
   get_fireflies_transcripts example_config
     (fixed_http (Inr (ok_response listing_example_body))) 1 =
     (Inr (JArr [JObj [(''id'', JStr ''t1''), (''title'', JStr ''Call'')]]),
      [RequestsPost (transcripts_request example_config)], 2)"
proof -
  have a: "get_fireflies_transcripts example_config
             (fixed_http (Inr (ok_response listing_example_body))) 0 =
           (Inr (JArr [JObj [(''id'', JStr ''t1''), (''title'', JStr ''Call'')]]),
            [RequestsPost (transcripts_request example_config)], 1)"
    by (simp add: get_fireflies_transcripts_def example_config_def fixed_http_def
          ok_response_def listing_example_body_def transcripts_of_response_def
          raise_for_status_def)
  obtain r2 evs2 where b: "get_fireflies_transcripts example_config
             (fixed_http (Inr (ok_response listing_example_body))) 1 = (r2, evs2, 2)"
    by (simp add: get_fireflies_transcripts_def example_config_def fixed_http_def
          ok_response_def listing_example_body_def transcripts_of_response_def
          raise_for_status_def)
  from lister_idempotent [OF a b] a b show ?thesis
    by (simp add: fixed_http_def)
qed

section \<open>The order of the extraction steps\<close>

text \<open>
  C3. When the key is set and the client delivers a response, \<open>generate_sales_insights\<close>
  applies its extraction steps in this order. A block reason gives the blocked message
  followed by the reason, and nothing later is tried. Otherwise an empty candidate list
  gives the fixed no-candidate message. Otherwise a primary text that is not blank after
  trimming is returned trimmed. Otherwise, the primary text being missing or blank, the
  text of the first part of the first candidate is returned trimmed; in particular a blank
  primary text with a non-blank first segment gives that segment trimmed. Otherwise, the
  first candidate having no part, the fixed could-not-extract message is returned.
\<close>

theorem extraction_priority_order:
  assumes "GOOGLE_API_KEY cfg \<noteq> []"
    and "configure client (GOOGLE_API_KEY cfg) w = (None, w1)"
    and "GenerativeModel client MODEL_ID w1 = (None, w2)"
    and "generate_content client MODEL_ID (build_prompt txt) TEMPERATURE w2 = (Inr response, w3)"
  shows "(\<forall>reason. reported_block_reason response = Some reason \<longrightarrow>
            fst (generate_sales_insights cfg client txt w) = Inr (blocked_prefix @ reason)) \<and>
         (reported_block_reason response = None \<and> candidates response = [] \<longrightarrow>
            fst (generate_sales_insights cfg client txt w) = Inr no_candidate_msg) \<and>
         (\<forall>c cs t. reported_block_reason response = None \<and> candidates response = c # cs \<and>
            response_text response = Present t \<and> strip t \<noteq> [] \<longrightarrow>
            fst (generate_sales_insights cfg client txt w) = Inr (strip t)) \<and>
         (\<forall>c cs seg. reported_block_reason response = None \<and> candidates response = c # cs \<and>
            blank_primary (response_text response) \<and> first_segment c = Some (Present seg) \<longrightarrow>
            fst (generate_sales_insights cfg client txt w) = Inr (strip seg)) \<and>
         (\<forall>c cs. reported_block_reason response = None \<and> candidates response = c # cs \<and>
            blank_primary (response_text response) \<and> first_segment c = None \<longrightarrow>
            fst (generate_sales_insights cfg client txt w) = Inr could_not_extract_msg)"
proof -
  note d = generator_delivered [where client = client, OF assms]
  have 1: "\<forall>reason. reported_block_reason response = Some reason \<longrightarrow>
            fst (generate_sales_insights cfg client txt w) = Inr (blocked_prefix @ reason)"
    by (simp add: d insights_blocked)
  have 2: "reported_block_reason response = None \<and> candidates response = [] \<longrightarrow>
            fst (generate_sales_insights cfg client txt w) = Inr no_candidate_msg"
    by (simp add: d insights_no_candidate)
  have 3: "\<forall>c cs t. reported_block_reason response = None \<and> candidates response = c # cs \<and>
            response_text response = Present t \<and> strip t \<noteq> [] \<longrightarrow>
            fst (generate_sales_insights cfg client txt w) = Inr (strip t)"
    by (simp add: d insights_primary)
  have 4: "\<forall>c cs seg. reported_block_reason response = None \<and> candidates response = c # cs \<and>
            blank_primary (response_text response) \<and> first_segment c = Some (Present seg) \<longrightarrow>
            fst (generate_sales_insights cfg client txt w) = Inr (strip seg)"
    by (simp add: d insights_fallback fallback_segment)
  have 5: "\<forall>c cs. reported_block_reason response = None \<and> candidates response = c # cs \<and>
            blank_primary (response_text response) \<and> first_segment c = None \<longrightarrow>
            fst (generate_sales_insights cfg client txt w) = Inr could_not_extract_msg"
    by (simp add: d insights_fallback fallback_nothing)
  from 1 2 3 4 5 show ?thesis by blast
qed

theorem extraction_priority_order_witness:
  "fst (generate_sales_insights example_config
          (stub_genai None None (Inr (one_part_response (Present ''   '') ''  Insight one  '')))
          ''Hello'' 0) = Inr ''Insight one'' \<and>
   fst (generate_sales_insights example_config
          (stub_genai None None (Inr (blocked_response ''SAFETY''))) ''Hello'' 0) =
     Inr (blocked_prefix @ ''SAFETY'') \<and>
   fst (generate_sales_insights example_config
          (stub_genai None None (Inr no_candidates_response)) ''Hello'' 0) =
     Inr no_candidate_msg \<and>
   fst (generate_sales_insights example_config
          (stub_genai None None (Inr (one_part_response (Present '' Summary '') ''part'')))
          ''Hello'' 0) = Inr ''Summary'' \<and>
   fst (generate_sales_insights example_config
          (stub_genai None None (Inr contentless_response)) ''Hello'' 0) =
     Inr could_not_extract_msg"
  using extraction_priority_order
    [of example_config
        "stub_genai None None (Inr (one_part_response (Present ''   '') ''  Insight one  ''))"
        0 1 2 "''Hello''" "one_part_response (Present ''   '') ''  Insight one  ''" 3]
    extraction_priority_order
    [of example_config "stub_genai None None (Inr (blocked_response ''SAFETY''))"
        0 1 2 "''Hello''" "blocked_response ''SAFETY''" 3]
    extraction_priority_order
    [of example_config "stub_genai None None (Inr no_candidates_response)"
        0 1 2 "''Hello''" no_candidates_response 3]
    extraction_priority_order
    [of example_config
        "stub_genai None None (Inr (one_part_response (Present '' Summary '') ''part''))"
        0 1 2 "''Hello''" "one_part_response (Present '' Summary '') ''part''" 3]
    extraction_priority_order
    [of example_config "stub_genai None None (Inr contentless_response)"
        0 1 2 "''Hello''" contentless_response 3]
  by (simp add: example_config_def stub_genai_def one_part_response_def blocked_response_def
        no_candidates_response_def contentless_response_def
        reported_block_reason_def first_segment_def strip_def py_isspace_def)

section \<open>What the generator lets through\<close>

text \<open>
  C1, as the code has it. \<open>genai.configure\<close> is called before the \<open>try\<close> block, so the
  claim fails for a client whose configuration call raises: the exception leaves
  \<open>generate_sales_insights\<close>.
\<close>

theorem generator_configure_raises:
  "fst (generate_sales_insights example_config
          (stub_genai (Some (Exc ValueError ''invalid api key'')) None
             (Inr (one_part_response (Present ''Insight'') ''Insight''))) ''Hello'' 0) =
     Inl (Exc ValueError ''invalid api key'')"
  by (simp add: generate_sales_insights_def example_config_def stub_genai_def)

text \<open>
  C1, amended. For every input text, whenever the key is empty or the configuration call
  completes, \<open>generate_sales_insights\<close> returns a string and does not raise, whatever
  the constructor of the model, the invocation and the reading of the response do; an
  exception raised inside the \<open>try\<close> block is returned as the exception message after
  its fixed prefix.
\<close>

theorem generator_returns_when_configured:
  assumes "GOOGLE_API_KEY cfg = [] \<or> configure client (GOOGLE_API_KEY cfg) w = (None, w1)"
  shows "(\<exists>s. fst (generate_sales_insights cfg client txt w) = Inr s) \<and>
         (\<forall>e. GOOGLE_API_KEY cfg \<noteq> [] \<and>
              fst (insights_try client (build_prompt txt) w1) = Inl e \<longrightarrow>
              fst (generate_sales_insights cfg client txt w) =
                Inr (exception_prefix @ exc_str e))"
  using assms
  by (cases "insights_try client (build_prompt txt) w1")
     (auto simp: generate_sales_insights_def split: sum.splits)

theorem generator_returns_when_configured_witness:
  "fst (generate_sales_insights example_config
          (stub_genai None None (Inl (Exc OtherError ''quota exceeded''))) ''Hello'' 0) =
     Inr (exception_prefix @ ''quota exceeded'') \<and>
   fst (generate_sales_insights example_config
          (stub_genai None (Some (Exc ValueError ''unknown model''))
             (Inr no_candidates_response)) ''Hello'' 0) =
     Inr (exception_prefix @ ''unknown model'')"
  using generator_returns_when_configured
    [of example_config "stub_genai None None (Inl (Exc OtherError ''quota exceeded''))" 0 1
        "''Hello''"]
    generator_returns_when_configured
    [of example_config
        "stub_genai None (Some (Exc ValueError ''unknown model'')) (Inr no_candidates_response)"
        0 1 "''Hello''"]
  by (simp add: example_config_def stub_genai_def insights_try_def)

section \<open>What the GraphQL functions let through\<close>

text \<open>
  C2, as the code has it. Only \<open>requests.RequestException\<close> is handled. A delivered
  body whose \<open>data\<close> is null makes \<open>get_fireflies_transcripts\<close> raise
  \<open>AttributeError\<close>, and a sentence object without \<open>text\<close> makes
  \<open>get_transcript_text_by_id\<close> raise \<open>KeyError\<close>.
\<close>

theorem malformed_bodies_raise:
  "fst (get_fireflies_transcripts example_config
          (fixed_http (Inr (ok_response null_data_body))) 0) =
     Inl (Exc AttributeError ''object has no attribute get'') \<and>
   fst (get_transcript_text_by_id example_config
          (fixed_http (Inr (ok_response textless_sentence_body))) (JStr ''t1'') 0) =
     Inl (Exc KeyError ([CHR 0x27] @ ''text'' @ [CHR 0x27]))"
  by (simp add: get_fireflies_transcripts_def get_transcript_text_by_id_def example_config_def
        fixed_http_def ok_response_def null_data_body_def textless_sentence_body_def
        transcripts_of_response_def text_of_response_def join_sentences_def
        raise_for_status_def)

text \<open>
  C2, amended. Every outcome of the POST that is a \<open>RequestException\<close> from the call,
  a 4xx or 5xx status, a \<open>RequestException\<close> from the decoder, or a decoded object with
  an \<open>errors\<close> key makes \<open>get_fireflies_transcripts\<close> return the empty list and
  \<open>get_transcript_text_by_id\<close> the empty string, each after an error shown to the
  user and without raising. Every delivered body of the shape its query asks for
  (\<open>data\<close> missing or an object; \<open>transcripts\<close> missing or a list; \<open>transcript\<close>
  missing or an object; \<open>sentences\<close> missing or a list of objects that each have a str
  \<open>text\<close>) makes \<open>get_fireflies_transcripts\<close> return a list and
  \<open>get_transcript_text_by_id\<close> return a string, without raising. So for all these
  outcomes the lister returns a sequence and the fetcher a string.
\<close>

theorem failures_absorbed_shaped_bodies_returned:
  assumes "post (transcripts_request cfg) w = (out, w1)"
    and "post (transcript_request cfg tid) w = (out', w2)"
    and "absorbed_failure out \<or> delivered_with listing_body out"
    and "absorbed_failure out' \<or> delivered_with transcript_body out'"
  shows "(\<exists>xs. fst (get_fireflies_transcripts cfg post w) = Inr (JArr xs)) \<and>
         (\<exists>t. fst (get_transcript_text_by_id cfg post tid w) = Inr t) \<and>
         (absorbed_failure out \<longrightarrow>
            fst (get_fireflies_transcripts cfg post w) = Inr (JArr []) \<and>
            errors_shown (fst (snd (get_fireflies_transcripts cfg post w))) \<noteq> []) \<and>
         (absorbed_failure out' \<longrightarrow>
            fst (get_transcript_text_by_id cfg post tid w) = Inr [] \<and>
            errors_shown (fst (snd (get_transcript_text_by_id cfg post tid w))) \<noteq> [])"
proof -
  note la = lister_absorbs [where post = post, OF _ assms(1)]
  note fa = fetcher_absorbs [where post = post, OF _ assms(2)]
  note ls = lister_shaped [where post = post, OF _ assms(1)]
  note fs = fetcher_shaped [where post = post, OF _ assms(2)]
  have 1: "\<exists>xs. fst (get_fireflies_transcripts cfg post w) = Inr (JArr xs)"
    using assms(3) la ls by blast
  have 2: "\<exists>t. fst (get_transcript_text_by_id cfg post tid w) = Inr t"
    using assms(4) fa fs by blast
  from 1 2 la fa show ?thesis by blast
qed

theorem failures_absorbed_shaped_bodies_returned_witness:
  "get_fireflies_transcripts example_config
     (fixed_http (Inl (Exc RequestException ''connection refused''))) 0 =
     (Inr (JArr []),
      [RequestsPost (transcripts_request example_config),
       StError (Msg (request_failed_prefix @ ''connection refused''))], 1) \<and>
   get_transcript_text_by_id example_config
     (fixed_http (Inl (Exc RequestException ''connection refused''))) (JStr ''t1'') 0 =
     (Inr [],
      [RequestsPost (transcript_request example_config (JStr ''t1'')),
       StError (Msg (request_failed_prefix @ ''connection refused''))], 1) \<and>
   fst (get_fireflies_transcripts example_config
          (fixed_http (Inr (ok_response hello_world_body))) 0) = Inr (JArr []) \<and>
   fst (get_transcript_text_by_id example_config
          (fixed_http (Inr (ok_response hello_world_body))) (JStr ''t1'') 0) =
     Inr (''Hello'' @ [CHR 0x0A] @ ''world'')"
proof -
  have a: "get_fireflies_transcripts example_config
     (fixed_http (Inl (Exc RequestException ''connection refused''))) 0 =
     (Inr (JArr []),
      [RequestsPost (transcripts_request example_config),
       StError (Msg (request_failed_prefix @ ''connection refused''))], 1)"
    by (simp add: get_fireflies_transcripts_def example_config_def fixed_http_def)
  have b: "get_transcript_text_by_id example_config
     (fixed_http (Inl (Exc RequestException ''connection refused''))) (JStr ''t1'') 0 =
     (Inr [],
      [RequestsPost (transcript_request example_config (JStr ''t1'')),
       StError (Msg (request_failed_prefix @ ''connection refused''))], 1)"
    by (simp add: get_transcript_text_by_id_def example_config_def fixed_http_def)
  have c: "fst (get_fireflies_transcripts example_config
          (fixed_http (Inr (ok_response hello_world_body))) 0) = Inr (JArr [])"
    by (simp add: get_fireflies_transcripts_def example_config_def fixed_http_def
          ok_response_def hello_world_body_def transcripts_of_response_def
          raise_for_status_def)
  have d: "fst (get_transcript_text_by_id example_config
          (fixed_http (Inr (ok_response hello_world_body))) (JStr ''t1'') 0) =
     Inr (''Hello'' @ [CHR 0x0A] @ ''world'')"
    by (simp add: get_transcript_text_by_id_def fixed_http_def ok_response_def
          hello_world_body_def sentence_def text_of_response_def join_sentences_def
          raise_for_status_def)
  from failures_absorbed_shaped_bodies_returned
    [of "fixed_http (Inl (Exc RequestException ''connection refused''))" example_config 0
        "Inl (Exc RequestException ''connection refused'')" 1 "JStr ''t1''"
        "Inl (Exc RequestException ''connection refused'')" 1]
  have "fst (get_fireflies_transcripts example_config
     (fixed_http (Inl (Exc RequestException ''connection refused''))) 0) = Inr (JArr [])"
    by (simp add: fixed_http_def)
  moreover
  from failures_absorbed_shaped_bodies_returned
    [of "fixed_http (Inr (ok_response hello_world_body))" example_config 0
        "Inr (ok_response hello_world_body)" 1 "JStr ''t1''"
        "Inr (ok_response hello_world_body)" 1]
  have "\<exists>t. fst (get_transcript_text_by_id example_config
          (fixed_http (Inr (ok_response hello_world_body))) (JStr ''t1'') 0) = Inr t"
    by (simp add: fixed_http_def ok_response_def hello_world_body_def sentence_def
          raise_for_status_def)
  ultimately show ?thesis using a b c d by simp
qed

section \<open>The insight flow and the session state\<close>

text \<open>
  C8. For every transcript id, the flow behind the "Gerar Insights" button (fetching the
  text, then generating the insights) hands back the session state it was given, so the
  stored transcript list is the same before and after, also when the flow ends in an
  exception. A whole run of the page in which the load button is not pressed leaves the
  session state as it was, up to the empty list stored under \<open>transcripts\<close> when that
  key was missing.
\<close>

theorem insights_flow_keeps_transcripts:
  "fst (insights_flow cfg post client s tid w) = s \<and>
   (\<not> button LoadButton \<longrightarrow>
      fst (main cfg post client button s w) =
        (if s ''transcripts'' = None then s(''transcripts'' \<mapsto> JArr []) else s))"
  using insights_flow_state [of cfg post client s tid w]
    main_without_load [of button cfg post client s w] by blast

theorem insights_flow_keeps_transcripts_witness:
  "fst (main example_config (fixed_http (Inr (ok_response hello_world_body)))
          (stub_genai None None (Inr (one_part_response (Present '' # Insights '') ''x'')))
          (insights_pressed (JStr ''t1'')) example_session 0) = example_session \<and>
   fst (snd (snd (main example_config (fixed_http (Inr (ok_response hello_world_body)))
          (stub_genai None None (Inr (one_part_response (Present '' # Insights '') ''x'')))
          (insights_pressed (JStr ''t1'')) example_session 0))) =
     [StSetPageConfig page_title ''wide'', StTitle app_title, StWrite (Msg intro_text),
      StSubheader available_heading, StColumns [3, 1], StWrite (Fmt id_prefix (JStr ''t1'')),
      StWrite (Fmt title_prefix (JStr ''Call'')),
      RequestsPost (transcript_request example_config (JStr ''t1'')),
      GenaiConfigure ''gk'', GenaiGenerativeModel MODEL_ID,
      GenaiGenerateContent MODEL_ID (build_prompt (''Hello'' @ [CHR 0x0A] @ ''world''))
        TEMPERATURE,
      StSuccess insights_done_msg, StMarkdown ''# Insights'', StMarkdown separator]"
proof -
  have t: "fst (snd (snd (main example_config (fixed_http (Inr (ok_response hello_world_body)))
          (stub_genai None None (Inr (one_part_response (Present '' # Insights '') ''x'')))
          (insights_pressed (JStr ''t1'')) example_session 0))) =
     [StSetPageConfig page_title ''wide'', StTitle app_title, StWrite (Msg intro_text),
      StSubheader available_heading, StColumns [3, 1], StWrite (Fmt id_prefix (JStr ''t1'')),
      StWrite (Fmt title_prefix (JStr ''Call'')),
      RequestsPost (transcript_request example_config (JStr ''t1'')),
      GenaiConfigure ''gk'', GenaiGenerativeModel MODEL_ID,
      GenaiGenerateContent MODEL_ID (build_prompt (''Hello'' @ [CHR 0x0A] @ ''world''))
        TEMPERATURE,
      StSuccess insights_done_msg, StMarkdown ''# Insights'', StMarkdown separator]"
    by (simp add: main_def load_transcripts_def insights_pressed_def example_session_def
        render_transcript_def insights_flow_def get_transcript_text_by_id_def fixed_http_def
        ok_response_def hello_world_body_def sentence_def text_of_response_def
        join_sentences_def raise_for_status_def generate_sales_insights_def example_config_def
        stub_genai_def insights_try_def insights_of_response_def one_part_response_def
        strip_def py_isspace_def Let_def)
  have "fst (main example_config (fixed_http (Inr (ok_response hello_world_body)))
          (stub_genai None None (Inr (one_part_response (Present '' # Insights '') ''x'')))
          (insights_pressed (JStr ''t1'')) example_session 0) = example_session"
    using insights_flow_keeps_transcripts
      [of example_config "fixed_http (Inr (ok_response hello_world_body))"
          "stub_genai None None (Inr (one_part_response (Present '' # Insights '') ''x''))"
          example_session "JStr ''t1''" 0 "insights_pressed (JStr ''t1'')"]
    by (simp add: insights_pressed_def example_session_def)
  with t show ?thesis by simp
qed

end
